theory Spec2Isabelle
  imports Main
begin

section \<open>The embedded server of the Aurorae Haven offline package\<close>

text \<open>
  A shallow embedding of \<^verbatim>\<open>scripts/embedded-server.py\<close>. The script is glue over the
  Python standard library: it changes the working directory, binds a
  \<^verbatim>\<open>socketserver.TCPServer\<close>, opens a browser and serves until interrupted. Every call
  that leaves the script (\<^verbatim>\<open>os.chdir\<close>, the \<^verbatim>\<open>TCPServer\<close> constructor,
  \<^verbatim>\<open>webbrowser.open\<close>, \<^verbatim>\<open>serve_forever\<close>) is answered by an environment record, and a
  run of \<^verbatim>\<open>main\<close> is the list of calls it made together with the way the process ended.
  Printed text is kept as the bytes of its UTF-8 encoding, and \<^verbatim>\<open>print\<close> is taken to
  succeed. Line numbers are those of the script.

  A request is answered by the handler class of lines 32 to 42 through the inherited
  \<^verbatim>\<open>send_head\<close>, which is transcribed from CPython 3.11 together with the library
  functions it calls to find the content type of a file. What these ask of the file
  system, of the clock and of the \<^verbatim>\<open>ipaddress\<close> and \<^verbatim>\<open>unicodedata\<close> modules is
  answered by a second record, and a response is the list of the blocks written to the
  client. Paths and header values are strings of bytes as well.
\<close>

subsection \<open>Configuration (lines 19 to 25)\<close>

definition PORT :: int where
  "PORT = 8765"

definition HOST :: string where
  "HOST = ''127.0.0.1''"

definition EADDRINUSE_MACOS :: int where
  "EADDRINUSE_MACOS = 48"

definition EADDRINUSE_LINUX :: int where
  "EADDRINUSE_LINUX = 98"

subsection \<open>Python values the script formats\<close>

text \<open>\<^verbatim>\<open>str\<close> of an integer, as the f-strings of the script use it for \<^verbatim>\<open>PORT\<close>.\<close>

definition digit_char :: "nat \<Rightarrow> char" where
  "digit_char d = ''0123456789'' ! d"

function str_nat :: "nat \<Rightarrow> string" where
  "str_nat n = (if n < 10 then [digit_char n] else str_nat (n div 10) @ [digit_char (n mod 10)])"
  by pat_completeness auto
termination
  by (relation "measure (\<lambda>n. n)") auto

declare str_nat.simps [simp del]

definition str_int :: "int \<Rightarrow> string" where
  "str_int i = (if i < 0 then CHR ''-'' # str_nat (nat (- i)) else str_nat (nat i))"

text \<open>The non-ASCII characters of the messages, UTF-8 encoded.\<close>

definition milky_way :: string where
  "milky_way = [CHR 0xF0, CHR 0x9F, CHR 0x8C, CHR 0x8C]"

definition check_mark :: string where
  "check_mark = [CHR 0xE2, CHR 0x9C, CHR 0x93]"

definition cross_mark :: string where
  "cross_mark = [CHR 0xE2, CHR 0x9D, CHR 0x8C]"

definition waving_hand :: string where
  "waving_hand = [CHR 0xF0, CHR 0x9F, CHR 0x91, CHR 0x8B]"

definition nl :: string where
  "nl = [CHR 0x0A]"

subsection \<open>Exceptions\<close>

text \<open>
  The exceptions the script distinguishes: \<^verbatim>\<open>OSError\<close> with its \<^verbatim>\<open>errno\<close> attribute
  (which may be \<^verbatim>\<open>None\<close>) and the text \<^verbatim>\<open>str(e)\<close>; \<^verbatim>\<open>KeyboardInterrupt\<close>, which derives
  from \<^verbatim>\<open>BaseException\<close> only; and any other subclass of \<^verbatim>\<open>Exception\<close>, by name.
\<close>

datatype exc =
    OSError "int option" string
  | KeyboardInterrupt
  | OtherException string

text \<open>\<^verbatim>\<open>isinstance(e, Exception)\<close>, the test of the clause \<^verbatim>\<open>except Exception\<close>.\<close>

fun is_Exception :: "exc \<Rightarrow> bool" where
  "is_Exception (OSError en msg) = True"
| "is_Exception KeyboardInterrupt = False"
| "is_Exception (OtherException name) = True"

subsection \<open>Paths\<close>

text \<open>
  A \<^verbatim>\<open>pathlib\<close> path as its anchor (drive and root, empty for a relative path) and the
  list of its remaining parts. \<^verbatim>\<open>Path.parent\<close> drops the last part and returns the path
  itself when no part is left. \<^verbatim>\<open>os.chdir\<close> resolves a relative directory against the
  current one.
\<close>

record pure_path =
  anchor :: string
  tail :: "string list"

definition parent :: "pure_path \<Rightarrow> pure_path" where
  "parent p = (if tail p = [] then p else p\<lparr>tail := butlast (tail p)\<rparr>)"

definition resolve :: "pure_path \<Rightarrow> pure_path \<Rightarrow> pure_path" where
  "resolve cwd0 p = (if anchor p \<noteq> [] then p else cwd0\<lparr>tail := tail cwd0 @ tail p\<rparr>)"

subsection \<open>The environment and the runs\<close>

text \<open>
  What the process is started with and how the world answers its calls:
  \<^item> \<open>script_file\<close> is \<^verbatim>\<open>__file__\<close>, \<open>initial_cwd\<close> the caller's directory;
  \<^item> \<open>argv\<close>, \<open>environ\<close> and \<open>files\<close> are the command line, the environment variables
    and the readable files (the script never looks at them);
  \<^item> \<open>chdir_result\<close> and \<open>bind_result\<close> give the exception \<^verbatim>\<open>os.chdir\<close> and the
    \<^verbatim>\<open>TCPServer\<close> constructor raise, \<open>None\<close> when they succeed;
  \<^item> \<open>browser_result\<close> is what \<^verbatim>\<open>webbrowser.open\<close> does: it returns a truth value
    (\<^verbatim>\<open>False\<close> when no browser could be started) or raises;
  \<^item> \<open>serve_result\<close> is the exception that ends \<^verbatim>\<open>serve_forever\<close>, \<open>None\<close> when the
    loop is never left (nothing in the script calls \<^verbatim>\<open>shutdown\<close>, so it never returns).
\<close>

record env =
  script_file :: pure_path
  initial_cwd :: pure_path
  argv :: "string list"
  environ :: "(string \<times> string) list"
  files :: "(string \<times> string) list"
  chdir_result :: "pure_path \<Rightarrow> exc option"
  bind_result :: "string \<Rightarrow> int \<Rightarrow> exc option"
  browser_result :: "string \<Rightarrow> exc + bool"
  serve_result :: "exc option"

datatype event =
    Chdir pure_path
  | Print string
  | Bind string int
  | OpenBrowser string
  | ServeForever
  | ServerClose

text \<open>
  A process ends with an exit status (\<^verbatim>\<open>sys.exit\<close>), with an exception nobody caught
  (the interpreter prints the traceback), or not at all.
\<close>

datatype outcome = Exit int | Uncaught exc | RunsForever

record run =
  trace :: "event list"
  cwd :: pure_path
  outcome :: outcome

subsection \<open>The entry point (lines 44 to 84)\<close>

text \<open>Lines 49 to 52: the banner printed before the \<^verbatim>\<open>try\<close> statement.\<close>

definition banner :: "event list" where
  "banner =
     [Print (replicate 60 CHR ''=''),
      Print (milky_way @ '' Aurorae Haven - Offline Server (Python)''),
      Print (replicate 60 CHR ''=''),
      Print []]"

text \<open>Line 57: \<^verbatim>\<open>url = f"http://{HOST}:{PORT}"\<close>.\<close>

definition url :: string where
  "url = ''http://'' @ HOST @ '':'' @ str_int PORT"

text \<open>Lines 59 to 61.\<close>

definition announce :: "event list" where
  "announce =
     [Print (check_mark @ '' Server running at: '' @ url),
      Print (check_mark @ '' Opening in your default browser...''),
      Print (nl @ ''Press Ctrl+C to stop the server'' @ nl)]"

definition browser_warning :: "event list" where
  "browser_warning =
     [Print ''Failed to open browser automatically.'',
      Print (''Please open your browser and navigate to: '' @ url)]"

text \<open>
  Lines 64 to 68, the inner \<^verbatim>\<open>try\<close>: the value \<^verbatim>\<open>webbrowser.open\<close> returns is dropped;
  an exception is handled when it is an instance of \<^verbatim>\<open>Exception\<close> and leaves the
  statement otherwise. The result is the calls made and the exception that escapes.
\<close>

definition open_browser :: "env \<Rightarrow> event list \<times> exc option" where
  "open_browser e =
     (case browser_result e url of
        Inr opened \<Rightarrow> ([OpenBrowser url], None)
      | Inl x \<Rightarrow>
          if is_Exception x then (OpenBrowser url # browser_warning, None)
          else ([OpenBrowser url], Some x))"

text \<open>Lines 57 to 71, the body of the \<^verbatim>\<open>with\<close> statement.\<close>

definition with_body :: "env \<Rightarrow> event list \<times> exc option" where
  "with_body e =
     (case open_browser e of
        (t, Some x) \<Rightarrow> (announce @ t, Some x)
      | (t, None) \<Rightarrow> (announce @ t @ [ServeForever], serve_result e))"

text \<open>
  Lines 56 to 71, the body of the outer \<^verbatim>\<open>try\<close>. When the constructor raises, the
  \<^verbatim>\<open>with\<close> statement is never entered. Once it is entered, \<^verbatim>\<open>__exit__\<close> calls
  \<^verbatim>\<open>server_close\<close> on the way out, which here is always by an exception.
\<close>

definition try_body :: "env \<Rightarrow> event list \<times> exc option" where
  "try_body e =
     (case bind_result e HOST PORT of
        Some x \<Rightarrow> ([Bind HOST PORT], Some x)
      | None \<Rightarrow>
          (case with_body e of
             (t, Some x) \<Rightarrow> (Bind HOST PORT # t @ [ServerClose], Some x)
           | (t, None) \<Rightarrow> (Bind HOST PORT # t, None)))"

text \<open>Line 74: \<^verbatim>\<open>e.errno in (EADDRINUSE_MACOS, EADDRINUSE_LINUX)\<close>.\<close>

definition errno_in_use :: "int option \<Rightarrow> bool" where
  "errno_in_use en = (en = Some EADDRINUSE_MACOS \<or> en = Some EADDRINUSE_LINUX)"

definition port_in_use_message :: "event list" where
  "port_in_use_message =
     [Print (nl @ cross_mark @ '' Port '' @ str_int PORT @ '' is already in use.''),
      Print (''Please close the other application or use a different port.'' @ nl)]"

definition shutdown_message :: "event list" where
  "shutdown_message =
     [Print (nl @ nl @ waving_hand @ '' Shutting down server...''),
      Print (check_mark @ '' Server stopped'')]"

text \<open>
  Lines 73 to 84, the clauses \<^verbatim>\<open>except OSError\<close> and \<^verbatim>\<open>except KeyboardInterrupt\<close>; an
  exception of another class matches neither and leaves \<^verbatim>\<open>main\<close>.
\<close>

fun except_clauses :: "exc \<Rightarrow> event list \<times> outcome" where
  "except_clauses (OSError en msg) =
     (if errno_in_use en then (port_in_use_message, Exit 1)
      else ([Print (''Server error: '' @ msg)], Exit 1))"
| "except_clauses KeyboardInterrupt = (shutdown_message, Exit 0)"
| "except_clauses (OtherException name) = ([], Uncaught (OtherException name))"

text \<open>
  \<^verbatim>\<open>main\<close>. Line 46 is \<^verbatim>\<open>script_dir = Path(__file__).parent\<close>. Lines 46 and 47 come
  before the \<^verbatim>\<open>try\<close> statement: an exception of \<^verbatim>\<open>os.chdir\<close> is not handled anywhere.
  A call that raised is still listed in the trace; \<open>cwd\<close> is the directory the process
  is in at its end.
\<close>

definition script_dir :: "env \<Rightarrow> pure_path" where
  "script_dir e = parent (script_file e)"

definition main :: "env \<Rightarrow> run" where
  "main e =
     (case chdir_result e (script_dir e) of
        Some x \<Rightarrow>
          \<lparr>trace = [Chdir (script_dir e)], cwd = initial_cwd e, outcome = Uncaught x\<rparr>
      | None \<Rightarrow>
          (case try_body e of
             (t, None) \<Rightarrow>
               \<lparr>trace = Chdir (script_dir e) # banner @ t,
                cwd = resolve (initial_cwd e) (script_dir e),
                outcome = RunsForever\<rparr>
           | (t, Some x) \<Rightarrow>
               \<lparr>trace = Chdir (script_dir e) # banner @ t @ fst (except_clauses x),
                cwd = resolve (initial_cwd e) (script_dir e),
                outcome = snd (except_clauses x)\<rparr>))"

text \<open>The addresses handed to the \<^verbatim>\<open>TCPServer\<close> constructor during a run.\<close>

fun bind_calls :: "event list \<Rightarrow> (string \<times> int) list" where
  "bind_calls [] = []"
| "bind_calls (Bind h p # es) = (h, p) # bind_calls es"
| "bind_calls (ev # es) = bind_calls es"

subsection \<open>What the platform calls "address in use"\<close>

text \<open>
  Not part of the script: the value of \<^verbatim>\<open>errno.EADDRINUSE\<close> in the Python \<^verbatim>\<open>errno\<close>
  module, which is how a program asks portably whether an \<^verbatim>\<open>OSError\<close> means that the
  address is taken. It is 98 on Linux, 48 on macOS and 10048 (\<^verbatim>\<open>WSAEADDRINUSE\<close>) on
  Windows, where a failed \<^verbatim>\<open>bind\<close> carries that number as its \<^verbatim>\<open>errno\<close>.
\<close>

datatype platform = Linux | MacOS | Windows

fun errno_EADDRINUSE :: "platform \<Rightarrow> int" where
  "errno_EADDRINUSE Linux = 98"
| "errno_EADDRINUSE MacOS = 48"
| "errno_EADDRINUSE Windows = 10048"

fun address_in_use :: "platform \<Rightarrow> exc \<Rightarrow> bool" where
  "address_in_use pf (OSError en msg) = (en = Some (errno_EADDRINUSE pf))"
| "address_in_use pf KeyboardInterrupt = False"
| "address_in_use pf (OtherException name) = False"

subsection \<open>The request handler (lines 32 to 42)\<close>

text \<open>
  \<^verbatim>\<open>CustomHTTPRequestHandler\<close> overrides \<^verbatim>\<open>end_headers\<close> and \<^verbatim>\<open>log_message\<close> and inherits
  the rest from \<^verbatim>\<open>http.server.SimpleHTTPRequestHandler\<close>. The inherited methods the
  override calls are transcribed from CPython 3.11, \<^verbatim>\<open>Lib/http/server.py\<close>:
  \<^verbatim>\<open>
    def send_response_only(self, code, message=None):
        if self.request_version != 'HTTP/0.9':
            ...
            if not hasattr(self, '_headers_buffer'):
                self._headers_buffer = []
            self._headers_buffer.append(("%s %d %s\r\n" %
                    (self.protocol_version, code, message)).encode('latin-1', 'strict'))

    def send_header(self, keyword, value):
        if self.request_version != 'HTTP/0.9':
            if not hasattr(self, '_headers_buffer'):
                self._headers_buffer = []
            self._headers_buffer.append(
                ("%s: %s\r\n" % (keyword, value)).encode('latin-1', 'strict'))
        if keyword.lower() == 'connection':
            if value.lower() == 'close':
                self.close_connection = True
            elif value.lower() == 'keep-alive':
                self.close_connection = False

    def end_headers(self):
        if self.request_version != 'HTTP/0.9':
            self._headers_buffer.append(b"\r\n")
            self.flush_headers()

    def flush_headers(self):
        if hasattr(self, '_headers_buffer'):
            self.wfile.write(b"".join(self._headers_buffer))
            self._headers_buffer = []
  \<close>
  \<open>request_version\<close> is \<^verbatim>\<open>'HTTP/0.9'\<close> (the handler's \<^verbatim>\<open>default_request_version\<close>) for a
  request line of two words, and still so when \<^verbatim>\<open>parse_request\<close> rejects the version
  of a request line and answers 400. \<open>headers_buffer\<close> is \<open>None\<close> while the attribute
  \<^verbatim>\<open>_headers_buffer\<close> does not exist; \<open>wfile\<close> is the list of the blocks written to the
  client.
\<close>

record handler =
  request_version :: string
  protocol_version :: string
  headers_buffer :: "string list option"
  close_connection :: bool
  wfile :: "string list"

definition crlf :: string where
  "crlf = [CHR 0x0D, CHR 0x0A]"

definition lower_char :: "char \<Rightarrow> char" where
  "lower_char c =
     (case map_of (zip ''ABCDEFGHIJKLMNOPQRSTUVWXYZ'' ''abcdefghijklmnopqrstuvwxyz'') c of
        Some l \<Rightarrow> l
      | None \<Rightarrow> c)"

definition str_lower :: "string \<Rightarrow> string" where
  "str_lower s = map lower_char s"

definition buffer_append :: "handler \<Rightarrow> string \<Rightarrow> handler" where
  "buffer_append h line =
     h\<lparr>headers_buffer :=
         Some ((case headers_buffer h of None \<Rightarrow> [] | Some b \<Rightarrow> b) @ [line])\<rparr>"

definition send_response_only :: "handler \<Rightarrow> int \<Rightarrow> string \<Rightarrow> handler" where
  "send_response_only h code message =
     (if request_version h \<noteq> ''HTTP/0.9''
      then buffer_append h (protocol_version h @ '' '' @ str_int code @ '' '' @ message @ crlf)
      else h)"

definition header_line :: "string \<Rightarrow> string \<Rightarrow> string" where
  "header_line keyword val = keyword @ '': '' @ val @ crlf"

definition send_header :: "handler \<Rightarrow> string \<Rightarrow> string \<Rightarrow> handler" where
  "send_header h keyword val =
     (let h1 = (if request_version h \<noteq> ''HTTP/0.9''
                then buffer_append h (header_line keyword val) else h)
      in if str_lower keyword = ''connection''
         then (if str_lower val = ''close'' then h1\<lparr>close_connection := True\<rparr>
               else if str_lower val = ''keep-alive'' then h1\<lparr>close_connection := False\<rparr>
               else h1)
         else h1)"

definition flush_headers :: "handler \<Rightarrow> handler" where
  "flush_headers h =
     (case headers_buffer h of
        None \<Rightarrow> h
      | Some b \<Rightarrow> h\<lparr>wfile := wfile h @ [concat b], headers_buffer := Some []\<rparr>)"

text \<open>
  The inherited \<^verbatim>\<open>end_headers\<close>; appending to a buffer that does not exist raises
  \<^verbatim>\<open>AttributeError\<close>.
\<close>

definition super_end_headers :: "handler \<Rightarrow> exc + handler" where
  "super_end_headers h =
     (if request_version h \<noteq> ''HTTP/0.9''
      then (case headers_buffer h of
              None \<Rightarrow> Inl (OtherException ''AttributeError'')
            | Some b \<Rightarrow> Inr (flush_headers (h\<lparr>headers_buffer := Some (b @ [crlf])\<rparr>)))
      else Inr h)"

text \<open>Lines 35 to 38, the override.\<close>

definition end_headers :: "handler \<Rightarrow> exc + handler" where
  "end_headers h = super_end_headers (send_header h ''Cache-Control'' ''public, max-age=0'')"

text \<open>
  Every response of the inherited handler (\<^verbatim>\<open>send_error\<close>, \<^verbatim>\<open>send_head\<close>,
  \<^verbatim>\<open>list_directory\<close>) is built in one shape: the status line, the handler's own headers
  one \<^verbatim>\<open>send_header\<close> call each, then \<^verbatim>\<open>self.end_headers()\<close>, which is the override.
\<close>

definition send_headers :: "handler \<Rightarrow> (string \<times> string) list \<Rightarrow> handler" where
  "send_headers h hs = foldl (\<lambda>g kv. send_header g (fst kv) (snd kv)) h hs"

definition respond :: "handler \<Rightarrow> int \<Rightarrow> string \<Rightarrow> (string \<times> string) list \<Rightarrow> exc + handler" where
  "respond h code message hs = end_headers (send_headers (send_response_only h code message) hs)"

subsection \<open>The MIME table (lines 27 to 30)\<close>




text \<open>
  The lookup is inherited. \<^verbatim>\<open>posixpath.splitext\<close> (CPython 3.11, \<^verbatim>\<open>genericpath._splitext\<close>):
  \<^verbatim>\<open>
    sepIndex = p.rfind(sep)
    dotIndex = p.rfind(extsep)
    if dotIndex > sepIndex:
        # skip all leading dots
        filenameIndex = sepIndex + 1
        while filenameIndex < dotIndex:
            if p[filenameIndex:filenameIndex+1] != extsep:
                return p[:dotIndex], p[dotIndex:]
            filenameIndex += 1
    return p, p[:0]
  \<close>
\<close>

text \<open>
  \<^verbatim>\<open>str.rfind\<close> for a single character: the highest index where it occurs, \<open>-1\<close> when
  it does not. \<open>rfind_from\<close> walks the string with the index of the current position and
  the last index found so far.
\<close>

fun rfind_from :: "char \<Rightarrow> string \<Rightarrow> int \<Rightarrow> int \<Rightarrow> int" where
  "rfind_from c [] i found = found"
| "rfind_from c (x # xs) i found = rfind_from c xs (i + 1) (if x = c then i else found)"



subsection \<open>The lookup of a content type\<close>


















subsection \<open>What the handler asks of its surroundings\<close>



text \<open>
  A request as \<^verbatim>\<open>parse_request\<close> leaves it: \<open>request_path\<close> is \<^verbatim>\<open>self.path\<close>,
  \<open>translated_path\<close> is what \<^verbatim>\<open>translate_path\<close> makes of it, a path below the current
  directory, \<open>redirect_url\<close> is \<^verbatim>\<open>self.path\<close> put together again by \<^verbatim>\<open>urlunsplit\<close> with a
  slash at the end of its path. \<open>if_modified_since\<close> is the time of the
  \<^verbatim>\<open>If-Modified-Since\<close> header in seconds; it is \<open>None\<close> when the header is missing or
  ill-formed, when its time zone is not UTC, and when the request has an
  \<^verbatim>\<open>If-None-Match\<close> header.
\<close>

record request =
  command :: string
  request_path :: string
  translated_path :: string
  redirect_url :: string
  if_modified_since :: "int option"






subsection \<open>The response to a GET or HEAD request\<close>












subsection \<open>Reading a run\<close>

text \<open>
  What a run does from the call of \<^verbatim>\<open>serve_forever\<close> on: nothing more when the loop
  is never left; otherwise the exception leaves the \<^verbatim>\<open>with\<close> statement, which closes
  the server, and reaches the \<^verbatim>\<open>except\<close> clauses.
\<close>

definition after_serve :: "env \<Rightarrow> event list" where
  "after_serve e =
     (case serve_result e of None \<Rightarrow> [] | Some x \<Rightarrow> ServerClose # fst (except_clauses x))"

text \<open>The directories handed to \<^verbatim>\<open>os.chdir\<close> during a run.\<close>

fun chdir_calls :: "event list \<Rightarrow> pure_path list" where
  "chdir_calls [] = []"
| "chdir_calls (Chdir d # es) = d # chdir_calls es"
| "chdir_calls (ev # es) = chdir_calls es"

subsection \<open>Example environments\<close>

text \<open>
  The script lies in \<^verbatim>\<open>/opt/haven\<close> and is started from \<^verbatim>\<open>/home/user\<close>; everything
  works and the user presses Ctrl-C while the server is serving.
\<close>

definition quiet_env :: env where
  "quiet_env =
     \<lparr>script_file = \<lparr>anchor = ''/'', tail = [''opt'', ''haven'', ''embedded-server.py'']\<rparr>,
      initial_cwd = \<lparr>anchor = ''/'', tail = [''home'', ''user'']\<rparr>,
      argv = [''embedded-server.py''],
      environ = [],
      files = [],
      chdir_result = (\<lambda>d. None),
      bind_result = (\<lambda>h p. None),
      browser_result = (\<lambda>u. Inr True),
      serve_result = Some KeyboardInterrupt\<rparr>"

text \<open>Binding is refused for a reason other than a busy port.\<close>

definition bind_denied_env :: env where
  "bind_denied_env =
     quiet_env\<lparr>bind_result := \<lambda>h p. Some (OSError (Some 13) ''[Errno 13] Permission denied'')\<rparr>"

text \<open>
  No browser can be started: \<^verbatim>\<open>webbrowser.open\<close> raises (\<open>no_display_env\<close>) or
  returns \<^verbatim>\<open>False\<close> (\<open>no_browser_env\<close>).
\<close>

definition no_display_env :: env where
  "no_display_env =
     quiet_env\<lparr>browser_result := \<lambda>u. Inl (OtherException ''webbrowser.Error'')\<rparr>"

definition no_browser_env :: env where
  "no_browser_env = quiet_env\<lparr>browser_result := \<lambda>u. Inr False\<rparr>"

text \<open>
  The directory of the script cannot be entered (it has been removed, or the script is
  run from inside an archive, where the parent of \<^verbatim>\<open>__file__\<close> is not a directory).
\<close>

definition missing_dir_env :: env where
  "missing_dir_env =
     quiet_env\<lparr>chdir_result :=
       \<lambda>d. Some (OSError (Some 2) ''[Errno 2] No such file or directory'')\<rparr>"

text \<open>The serve loop ends with an exception that is neither of the two handled classes.\<close>

definition serve_crash_env :: env where
  "serve_crash_env = quiet_env\<lparr>serve_result := Some (OtherException ''ValueError'')\<rparr>"

text \<open>
  The same start with other arguments, environment variables and files, and a relative
  \<^verbatim>\<open>__file__\<close>.
\<close>

definition other_args_env :: env where
  "other_args_env =
     quiet_env\<lparr>script_file := \<lparr>anchor = [], tail = [''haven'', ''embedded-server.py'']\<rparr>,
               initial_cwd := \<lparr>anchor = ''/'', tail = [''opt'']\<rparr>,
               argv := [''embedded-server.py'', ''--host'', ''0.0.0.0'', ''--port'', ''80''],
               environ := [(''HOST'', ''0.0.0.0''), (''PORT'', ''80'')],
               files := [(''server.conf'', ''port=80'')]\<rparr>"

text \<open>
  The port is taken, on Windows: the constructor raises the \<^verbatim>\<open>OSError\<close> of a failed
  \<^verbatim>\<open>bind\<close>, whose \<^verbatim>\<open>errno\<close> is 10048 there. On Linux the same condition has
  \<^verbatim>\<open>errno\<close> 98.
\<close>

definition windows_port_busy_env :: env where
  "windows_port_busy_env =
     quiet_env\<lparr>bind_result := \<lambda>h p. Some (OSError (Some 10048)
       (''[WinError 10048] Only one usage of each socket address '' @
        ''(protocol/network address/port) is normally permitted''))\<rparr>"

definition linux_port_busy_env :: env where
  "linux_port_busy_env =
     quiet_env\<lparr>bind_result := \<lambda>h p. Some (OSError (Some 98)
       ''[Errno 98] Address already in use'')\<rparr>"

subsection \<open>Example requests\<close>

text \<open>
  The handler as \<^verbatim>\<open>parse_request\<close> leaves it for the request line
  \<^verbatim>\<open>GET /app.js HTTP/1.1\<close>, and for \<^verbatim>\<open>GET /app.js HTTP/1.x\<close>, whose version it rejects
  before \<open>request_version\<close> is assigned: the error response is sent while it still has
  its initial value \<^verbatim>\<open>'HTTP/0.9'\<close>. The simple request \<^verbatim>\<open>GET /app.js\<close> leaves the
  handler in the same state.
\<close>

definition http11_handler :: handler where
  "http11_handler =
     \<lparr>request_version = ''HTTP/1.1'', protocol_version = ''HTTP/1.0'',
      headers_buffer = None, close_connection = True, wfile = []\<rparr>"

definition bad_version_handler :: handler where
  "bad_version_handler =
     \<lparr>request_version = ''HTTP/0.9'', protocol_version = ''HTTP/1.0'',
      headers_buffer = None, close_connection = True, wfile = []\<rparr>"

text \<open>The headers \<^verbatim>\<open>send_error\<close> sends with a 400 response, in its order.\<close>

definition error_headers :: "(string \<times> string) list" where
  "error_headers =
     [(''Server'', ''SimpleHTTP/0.6 Python/3.11.10''),
      (''Date'', ''Wed, 04 Nov 2026 10:00:00 GMT''),
      (''Connection'', ''close''),
      (''Content-Type'', ''text/html;charset=utf-8''),
      (''Content-Length'', ''357'')]"

text \<open>The headers \<^verbatim>\<open>send_head\<close> sends with a file it serves.\<close>

definition file_headers :: "string \<Rightarrow> (string \<times> string) list" where
  "file_headers ctype =
     [(''Server'', ''SimpleHTTP/0.6 Python/3.11.10''),
      (''Date'', ''Wed, 04 Nov 2026 10:00:00 GMT''),
      (''Content-type'', ctype),
      (''Content-Length'', ''1024''),
      (''Last-Modified'', ''Tue, 03 Nov 2026 09:00:00 GMT'')]"



subsection \<open>Example files\<close>










section \<open>Properties\<close>

subsection \<open>Unfolding a run\<close>

lemma str_int_PORT: "str_int PORT = ''8765''"
  by (simp add: PORT_def str_int_def str_nat.simps digit_char_def)

lemma url_value: "url = ''http://127.0.0.1:8765''"
  by (simp add: url_def HOST_def str_int_PORT)

lemma try_body_bind_raises:
  "bind_result e HOST PORT = Some x \<Longrightarrow> try_body e = ([Bind HOST PORT], Some x)"
  by (simp add: try_body_def)

lemma try_body_bound:
  "bind_result e HOST PORT = None \<Longrightarrow>
   try_body e =
     (Bind HOST PORT # fst (with_body e) @
        (case snd (with_body e) of None \<Rightarrow> [] | Some x \<Rightarrow> [ServerClose]),
      snd (with_body e))"
  by (simp add: try_body_def split: prod.splits option.splits)

lemma main_chdir_raises:
  "chdir_result e (script_dir e) = Some x \<Longrightarrow>
   main e = \<lparr>trace = [Chdir (script_dir e)], cwd = initial_cwd e, outcome = Uncaught x\<rparr>"
  by (simp add: main_def)

lemma main_started:
  "chdir_result e (script_dir e) = None \<Longrightarrow>
   main e =
     \<lparr>trace = Chdir (script_dir e) # banner @ fst (try_body e) @
                (case snd (try_body e) of None \<Rightarrow> [] | Some x \<Rightarrow> fst (except_clauses x)),
      cwd = resolve (initial_cwd e) (script_dir e),
      outcome = (case snd (try_body e) of None \<Rightarrow> RunsForever
                 | Some x \<Rightarrow> snd (except_clauses x))\<rparr>"
  by (simp add: main_def split: prod.splits option.splits)

lemma with_body_served:
  "snd (open_browser e) = None \<Longrightarrow>
   with_body e = (announce @ fst (open_browser e) @ [ServeForever], serve_result e)"
  by (cases "open_browser e") (simp add: with_body_def)

lemma with_body_not_served:
  "snd (open_browser e) = Some x \<Longrightarrow>
   with_body e = (announce @ fst (open_browser e), Some x)"
  by (cases "open_browser e") (simp add: with_body_def)

lemma open_browser_returns:
  "browser_result e url = Inr b \<Longrightarrow> open_browser e = ([OpenBrowser url], None)"
  by (simp add: open_browser_def)

lemma open_browser_handled:
  "browser_result e url = Inl x \<Longrightarrow> is_Exception x \<Longrightarrow>
   open_browser e = (OpenBrowser url # browser_warning, None)"
  by (simp add: open_browser_def)

lemma open_browser_escapes:
  "browser_result e url = Inl x \<Longrightarrow> \<not> is_Exception x \<Longrightarrow>
   open_browser e = ([OpenBrowser url], Some x)"
  by (simp add: open_browser_def)

lemma main_serving:
  assumes "chdir_result e (script_dir e) = None"
    and "bind_result e HOST PORT = None"
    and "snd (open_browser e) = None"
  shows "main e =
     \<lparr>trace = Chdir (script_dir e) # banner @ Bind HOST PORT # announce @
                fst (open_browser e) @ ServeForever # after_serve e,
      cwd = resolve (initial_cwd e) (script_dir e),
      outcome = (case serve_result e of None \<Rightarrow> RunsForever
                 | Some x \<Rightarrow> snd (except_clauses x))\<rparr>"
  using assms
  by (simp add: main_started try_body_bound with_body_served after_serve_def
      split: option.splits)

lemma bind_calls_append: "bind_calls (xs @ ys) = bind_calls xs @ bind_calls ys"
  by (induction xs rule: bind_calls.induct) simp_all

lemma chdir_calls_append: "chdir_calls (xs @ ys) = chdir_calls xs @ chdir_calls ys"
  by (induction xs rule: chdir_calls.induct) simp_all

lemma calls_banner: "bind_calls banner = []" "chdir_calls banner = []"
  by (simp_all add: banner_def)

lemma calls_except:
  "bind_calls (fst (except_clauses x)) = []" "chdir_calls (fst (except_clauses x)) = []"
  by (cases x; simp add: port_in_use_message_def shutdown_message_def)+

lemma calls_open_browser:
  "bind_calls (fst (open_browser e)) = []" "chdir_calls (fst (open_browser e)) = []"
  by (simp_all add: open_browser_def browser_warning_def split: sum.splits)

lemma calls_announce: "bind_calls announce = []" "chdir_calls announce = []"
  by (simp_all add: announce_def)

lemma calls_with_body:
  "bind_calls (fst (with_body e)) = []" "chdir_calls (fst (with_body e)) = []"
proof -
  show "bind_calls (fst (with_body e)) = []"
  proof (cases "snd (open_browser e)")
    case None
    then show ?thesis
      by (simp add: with_body_served bind_calls_append calls_announce calls_open_browser)
  next
    case (Some x)
    then show ?thesis
      by (simp add: with_body_not_served bind_calls_append calls_announce calls_open_browser)
  qed
  show "chdir_calls (fst (with_body e)) = []"
  proof (cases "snd (open_browser e)")
    case None
    then show ?thesis
      by (simp add: with_body_served chdir_calls_append calls_announce calls_open_browser)
  next
    case (Some x)
    then show ?thesis
      by (simp add: with_body_not_served chdir_calls_append calls_announce calls_open_browser)
  qed
qed

lemma calls_try_body:
  "bind_calls (fst (try_body e)) = [(HOST, PORT)]" "chdir_calls (fst (try_body e)) = []"
proof -
  show "bind_calls (fst (try_body e)) = [(HOST, PORT)]"
  proof (cases "bind_result e HOST PORT")
    case None
    then show ?thesis
      by (simp add: try_body_bound bind_calls_append calls_with_body split: option.splits)
  next
    case (Some x)
    then show ?thesis by (simp add: try_body_bind_raises)
  qed
  show "chdir_calls (fst (try_body e)) = []"
  proof (cases "bind_result e HOST PORT")
    case None
    then show ?thesis
      by (simp add: try_body_bound chdir_calls_append calls_with_body split: option.splits)
  next
    case (Some x)
    then show ?thesis by (simp add: try_body_bind_raises)
  qed
qed

lemma calls_main_started:
  assumes "chdir_result e (script_dir e) = None"
  shows "bind_calls (trace (main e)) = [(HOST, PORT)]"
    and "chdir_calls (trace (main e)) = [script_dir e]"
  using assms
  by (simp_all add: main_started bind_calls_append chdir_calls_append
      calls_banner calls_try_body calls_except split: option.splits)

lemma quiet_script_dir: "script_dir quiet_env = \<lparr>anchor = ''/'', tail = [''opt'', ''haven'']\<rparr>"
  by (simp add: script_dir_def parent_def quiet_env_def)

lemma quiet_open_browser: "open_browser quiet_env = ([OpenBrowser url], None)"
  by (simp add: open_browser_def quiet_env_def)

lemma quiet_try_body_raises: "snd (try_body quiet_env) = Some KeyboardInterrupt"
  by (simp add: try_body_def with_body_def open_browser_def quiet_env_def)

lemma bind_denied_try_body_raises:
  "snd (try_body bind_denied_env) = Some (OSError (Some 13) ''[Errno 13] Permission denied'')"
  by (simp add: try_body_def bind_denied_env_def quiet_env_def)

lemma parent_resolve:
  "tail p \<noteq> [] \<Longrightarrow> resolve c (parent p) = parent (resolve c p)"
  by (simp add: resolve_def parent_def butlast_append)

lemma open_browser_ignores_arguments:
  "open_browser (e\<lparr>argv := a, environ := v, files := f\<rparr>) = open_browser e"
  by (simp add: open_browser_def)

lemma with_body_ignores_arguments:
  "with_body (e\<lparr>argv := a, environ := v, files := f\<rparr>) = with_body e"
  by (simp add: with_body_def open_browser_ignores_arguments split: prod.splits option.splits)

lemma try_body_ignores_arguments:
  "try_body (e\<lparr>argv := a, environ := v, files := f\<rparr>) = try_body e"
  by (simp add: try_body_def with_body_ignores_arguments cong: option.case_cong)

lemma main_ignores_arguments:
  "main (e\<lparr>argv := a, environ := v, files := f\<rparr>) = main e"
  by (simp add: main_def try_body_ignores_arguments script_dir_def
      cong: option.case_cong)

lemma rule_line_head: "replicate 60 c = c # replicate 59 c"
  using replicate_Suc [of 59 c] by simp

lemma warning_not_in_banner: "ev \<in> set browser_warning \<Longrightarrow> ev \<notin> set banner"
  by (auto simp add: browser_warning_def banner_def milky_way_def rule_line_head)

lemma warning_not_in_announce: "ev \<in> set browser_warning \<Longrightarrow> ev \<notin> set announce"
  by (auto simp add: browser_warning_def announce_def check_mark_def nl_def)

lemma warning_not_in_except: "ev \<in> set browser_warning \<Longrightarrow> ev \<notin> set (fst (except_clauses x))"
  by (cases x)
    (auto simp add: browser_warning_def port_in_use_message_def shutdown_message_def
      check_mark_def nl_def)

lemma warning_is_print:
  "ev \<in> set browser_warning \<Longrightarrow>
   ev \<noteq> Chdir d \<and> ev \<noteq> Bind h p \<and> ev \<noteq> OpenBrowser u \<and> ev \<noteq> ServeForever \<and> ev \<noteq> ServerClose"
  by (auto simp add: browser_warning_def)

lemma warning_not_in_after_serve: "ev \<in> set browser_warning \<Longrightarrow> ev \<notin> set (after_serve e)"
  by (cases "serve_result e") (auto simp add: after_serve_def warning_is_print warning_not_in_except)

lemma set_with_body:
  "set (fst (with_body e)) \<subseteq> set announce \<union> set (fst (open_browser e)) \<union> {ServeForever}"
  by (cases "snd (open_browser e)") (auto simp add: with_body_served with_body_not_served)

lemma set_try_body:
  "set (fst (try_body e)) \<subseteq> {Bind HOST PORT, ServerClose} \<union> set (fst (with_body e))"
  by (cases "bind_result e HOST PORT")
    (auto simp add: try_body_bound try_body_bind_raises split: option.splits)

lemma set_trace_main:
  "set (trace (main e)) \<subseteq>
     {Chdir (script_dir e), Bind HOST PORT, ServerClose, ServeForever} \<union> set banner \<union>
     set announce \<union> set (fst (open_browser e)) \<union> (\<Union>x. set (fst (except_clauses x)))"
proof (cases "chdir_result e (script_dir e)")
  case None
  have "set (trace (main e)) \<subseteq>
      {Chdir (script_dir e)} \<union> set banner \<union> set (fst (try_body e)) \<union>
      (\<Union>x. set (fst (except_clauses x)))"
    using None by (auto simp add: main_started split: option.splits)
  with set_try_body [of e] set_with_body [of e] show ?thesis
    by blast
next
  case (Some x)
  then show ?thesis by (simp add: main_chdir_raises)
qed

lemma warning_comes_from_open_browser:
  assumes "ev \<in> set browser_warning" and "ev \<in> set (trace (main e))"
  shows "ev \<in> set (fst (open_browser e))"
proof -
  from assms(2) set_trace_main [of e]
  have "ev \<in> {Chdir (script_dir e), Bind HOST PORT, ServerClose, ServeForever} \<union> set banner \<union>
     set announce \<union> set (fst (open_browser e)) \<union> (\<Union>x. set (fst (except_clauses x)))"
    by blast
  with assms(1) show ?thesis
    using warning_not_in_banner [of ev] warning_not_in_announce [of ev]
      warning_not_in_except [of ev] warning_is_print [of ev]
    by blast
qed

lemma warning_needs_exception:
  assumes "ev \<in> set browser_warning" and "ev \<in> set (trace (main e))"
  shows "\<exists>x. browser_result e url = Inl x \<and> is_Exception x"
proof (cases "browser_result e url")
  case (Inl x)
  show ?thesis
  proof (cases "is_Exception x")
    case True
    with Inl show ?thesis by blast
  next
    case False
    with Inl have "open_browser e = ([OpenBrowser url], Some x)"
      by (simp add: open_browser_escapes)
    with warning_comes_from_open_browser [OF assms] warning_is_print [OF assms(1)]
    show ?thesis by simp
  qed
next
  case (Inr b)
  then have "open_browser e = ([OpenBrowser url], None)"
    by (simp add: open_browser_returns)
  with warning_comes_from_open_browser [OF assms] warning_is_print [OF assms(1)]
  show ?thesis by simp
qed

text \<open>
  Where the \<^verbatim>\<open>errno\<close> of a bind failure is one of the two numbers of line 74, the busy
  port is named; the two numbers are what Linux and macOS use for "address in use".
\<close>

lemma port_in_use_message_value:
  "port_in_use_message =
     [Print (nl @ cross_mark @ '' Port 8765 is already in use.''),
      Print (''Please close the other application or use a different port.'' @ nl)]"
  by (simp add: port_in_use_message_def str_int_PORT)

lemma busy_port_is_named:
  assumes "chdir_result e (script_dir e) = None"
    and "bind_result e HOST PORT = Some (OSError en msg)"
    and "errno_in_use en"
  shows "trace (main e) = Chdir (script_dir e) # banner @ Bind HOST PORT # port_in_use_message
         \<and> outcome (main e) = Exit 1"
  using assms by (simp add: main_started try_body_bind_raises)

lemma errno_in_use_iff_linux_or_macos:
  "errno_in_use en \<longleftrightarrow> address_in_use Linux (OSError en msg) \<or> address_in_use MacOS (OSError en msg)"
  by (auto simp add: errno_in_use_def EADDRINUSE_MACOS_def EADDRINUSE_LINUX_def)

lemma linux_port_busy_run:
  "trace (main linux_port_busy_env) =
     Chdir \<lparr>anchor = ''/'', tail = [''opt'', ''haven'']\<rparr> # banner @
     [Bind ''127.0.0.1'' 8765,
      Print (nl @ cross_mark @ '' Port 8765 is already in use.''),
      Print (''Please close the other application or use a different port.'' @ nl)]
   \<and> outcome (main linux_port_busy_env) = Exit 1"
proof -
  have a: "chdir_result linux_port_busy_env (script_dir linux_port_busy_env) = None"
    by (simp add: linux_port_busy_env_def quiet_env_def)
  have b: "bind_result linux_port_busy_env HOST PORT =
      Some (OSError (Some 98) ''[Errno 98] Address already in use'')"
    by (simp add: linux_port_busy_env_def quiet_env_def)
  have c: "errno_in_use (Some 98)"
    by (simp add: errno_in_use_def EADDRINUSE_LINUX_def)
  have s: "script_dir linux_port_busy_env = \<lparr>anchor = ''/'', tail = [''opt'', ''haven'']\<rparr>"
    by (simp add: script_dir_def parent_def linux_port_busy_env_def quiet_env_def)
  show ?thesis
    using busy_port_is_named [OF a b c]
    by (simp add: s port_in_use_message_value HOST_def PORT_def)
qed

subsection \<open>The header buffer\<close>

lemma buffer_append_fields:
  "request_version (buffer_append h l) = request_version h"
  "wfile (buffer_append h l) = wfile h"
  "close_connection (buffer_append h l) = close_connection h"
  "protocol_version (buffer_append h l) = protocol_version h"
  by (simp_all add: buffer_append_def)

lemma send_header_fields:
  "request_version (send_header h k v) = request_version h"
  "wfile (send_header h k v) = wfile h"
  "protocol_version (send_header h k v) = protocol_version h"
  by (simp_all add: send_header_def Let_def buffer_append_fields)

lemma send_header_buffer:
  "request_version h \<noteq> ''HTTP/0.9'' \<Longrightarrow>
   headers_buffer (send_header h k v) =
     Some ((case headers_buffer h of None \<Rightarrow> [] | Some b \<Rightarrow> b) @ [header_line k v])"
  by (simp add: send_header_def Let_def buffer_append_def)

lemma send_header_http09:
  "request_version h = ''HTTP/0.9'' \<Longrightarrow>
   headers_buffer (send_header h k v) = headers_buffer h"
  by (simp add: send_header_def Let_def)

lemma send_headers_fields:
  "request_version (send_headers h hs) = request_version h"
  "wfile (send_headers h hs) = wfile h"
  by (induction hs arbitrary: h) (simp_all add: send_headers_def send_header_fields)

lemma send_headers_buffer:
  "request_version h \<noteq> ''HTTP/0.9'' \<Longrightarrow> headers_buffer h = Some b \<Longrightarrow>
   headers_buffer (send_headers h hs) =
     Some (b @ map (\<lambda>kv. header_line (fst kv) (snd kv)) hs)"
proof (induction hs arbitrary: h b)
  case Nil
  then show ?case by (simp add: send_headers_def)
next
  case (Cons kv hs)
  have v: "request_version (send_header h (fst kv) (snd kv)) \<noteq> ''HTTP/0.9''"
    using Cons.prems(1) by (simp add: send_header_fields)
  have bf: "headers_buffer (send_header h (fst kv) (snd kv)) =
      Some (b @ [header_line (fst kv) (snd kv)])"
    using Cons.prems by (simp add: send_header_buffer)
  have "send_headers h (kv # hs) = send_headers (send_header h (fst kv) (snd kv)) hs"
    by (simp add: send_headers_def)
  with Cons.IH [OF v bf] show ?case by simp
qed

lemma end_headers_writes:
  assumes "request_version h \<noteq> ''HTTP/0.9''"
  shows "end_headers h =
     Inr (h\<lparr>wfile := wfile h @
               [concat ((case headers_buffer h of None \<Rightarrow> [] | Some b \<Rightarrow> b) @
                  [header_line ''Cache-Control'' ''public, max-age=0'', crlf])],
            headers_buffer := Some []\<rparr>)"
proof -
  have l: "str_lower ''Cache-Control'' \<noteq> ''connection''"
    by (simp add: str_lower_def lower_char_def)
  have s: "send_header h ''Cache-Control'' ''public, max-age=0'' =
      buffer_append h (header_line ''Cache-Control'' ''public, max-age=0'')"
    using assms l by (simp add: send_header_def)
  show ?thesis
    using assms
    by (simp add: end_headers_def s super_end_headers_def buffer_append_def flush_headers_def)
qed

lemma end_headers_http09:
  assumes "request_version h = ''HTTP/0.9''"
  shows "end_headers h = Inr h"
proof -
  have l: "str_lower ''Cache-Control'' \<noteq> ''connection''"
    by (simp add: str_lower_def lower_char_def)
  show ?thesis
    using assms l by (simp add: end_headers_def send_header_def super_end_headers_def)
qed

subsection \<open>The text of the messages\<close>

lemma shutdown_message_value:
  "shutdown_message =
     [Print ([CHR 0x0A, CHR 0x0A, CHR 0xF0, CHR 0x9F, CHR 0x91, CHR 0x8B] @
             '' Shutting down server...''),
      Print ([CHR 0xE2, CHR 0x9C, CHR 0x93] @ '' Server stopped'')]"
  by (simp add: shutdown_message_def nl_def waving_hand_def check_mark_def)

lemma port_in_use_message_text:
  "port_in_use_message =
     [Print ([CHR 0x0A, CHR 0xE2, CHR 0x9D, CHR 0x8C] @ '' Port 8765 is already in use.''),
      Print (''Please close the other application or use a different port.'' @ [CHR 0x0A])]"
  by (simp add: port_in_use_message_value nl_def cross_mark_def)

lemma try_body_raises:
  "snd (try_body e) =
     (case bind_result e HOST PORT of
        Some y \<Rightarrow> Some y
      | None \<Rightarrow>
          (case browser_result e url of
             Inl y \<Rightarrow> if is_Exception y then serve_result e else Some y
           | Inr opened \<Rightarrow> serve_result e))"
  by (simp add: try_body_def with_body_def open_browser_def
      split: option.splits sum.splits prod.splits)

lemma other_exception_leaves_main:
  "outcome (main serve_crash_env) = Uncaught (OtherException ''ValueError'')"
  by (simp add: main_def try_body_def with_body_def open_browser_def
      serve_crash_env_def quiet_env_def)


subsection \<open>The lookup of a content type\<close>










lemma rfind_from_bounds:
  "f < i \<Longrightarrow> f \<le> rfind_from c xs i f \<and> rfind_from c xs i f < i + int (length xs)"
proof (induction xs arbitrary: i f)
  case Nil
  then show ?case by simp
next
  case (Cons x xs)
  have "(if x = c then i else f) < i + 1"
    using Cons.prems by simp
  from Cons.IH [OF this] Cons.prems show ?case
    by (auto split: if_splits)
qed



subsection \<open>The headers of a response\<close>













subsection \<open>The claims\<close>

text \<open>
  C1. The claim asks for the port-specific message for every bind failure that means
  "address in use". The script compares \<^verbatim>\<open>errno\<close> with 48 and 98 only. On Windows the
  same failure carries \<^verbatim>\<open>errno\<close> 10048, which is \<^verbatim>\<open>errno.EADDRINUSE\<close> there: the run
  takes the \<^verbatim>\<open>else\<close> branch, prints \<^verbatim>\<open>Server error: \<close> with the text of the
  exception, which does not name the port, and exits with status 1 without serving.
\<close>

theorem windows_busy_port_is_not_named:
  "address_in_use Windows (OSError (Some 10048)
     (''[WinError 10048] Only one usage of each socket address '' @
      ''(protocol/network address/port) is normally permitted''))
   \<and> bind_result windows_port_busy_env HOST PORT = Some (OSError (Some 10048)
     (''[WinError 10048] Only one usage of each socket address '' @
      ''(protocol/network address/port) is normally permitted''))
   \<and> trace (main windows_port_busy_env) =
       Chdir \<lparr>anchor = ''/'', tail = [''opt'', ''haven'']\<rparr> # banner @
       [Bind ''127.0.0.1'' 8765,
        Print (''Server error: [WinError 10048] Only one usage of each socket address '' @
               ''(protocol/network address/port) is normally permitted'')]
   \<and> outcome (main windows_port_busy_env) = Exit 1
   \<and> Print (nl @ cross_mark @ '' Port 8765 is already in use.'')
        \<notin> set (trace (main windows_port_busy_env))"
proof -
  have a: "chdir_result windows_port_busy_env (script_dir windows_port_busy_env) = None"
    by (simp add: windows_port_busy_env_def quiet_env_def)
  have b: "bind_result windows_port_busy_env HOST PORT = Some (OSError (Some 10048)
     (''[WinError 10048] Only one usage of each socket address '' @
      ''(protocol/network address/port) is normally permitted''))"
    by (simp add: windows_port_busy_env_def quiet_env_def)
  have c: "\<not> errno_in_use (Some 10048)"
    by (simp add: errno_in_use_def EADDRINUSE_MACOS_def EADDRINUSE_LINUX_def)
  have s: "script_dir windows_port_busy_env = \<lparr>anchor = ''/'', tail = [''opt'', ''haven'']\<rparr>"
    by (simp add: script_dir_def parent_def windows_port_busy_env_def quiet_env_def)
  have t: "trace (main windows_port_busy_env) =
       Chdir \<lparr>anchor = ''/'', tail = [''opt'', ''haven'']\<rparr> # banner @
       [Bind ''127.0.0.1'' 8765,
        Print (''Server error: [WinError 10048] Only one usage of each socket address '' @
               ''(protocol/network address/port) is normally permitted'')]"
    using a b c by (simp add: main_started try_body_bind_raises s HOST_def PORT_def)
  have o: "outcome (main windows_port_busy_env) = Exit 1"
    using a b c by (simp add: main_started try_body_bind_raises)
  have n: "Print (nl @ cross_mark @ '' Port 8765 is already in use.'')
        \<notin> set (trace (main windows_port_busy_env))"
    by (simp add: t banner_def nl_def milky_way_def rule_line_head)
  show ?thesis
    using b t o n by simp
qed

text \<open>
  C2, as the claim states it, fails. The override adds the header through the inherited
  \<^verbatim>\<open>send_header\<close>, which does nothing while \<open>request_version\<close> is \<^verbatim>\<open>'HTTP/0.9'\<close>, and
  the inherited \<^verbatim>\<open>end_headers\<close> then writes nothing either. That is the state of the
  handler for a request line without a version (\<^verbatim>\<open>GET /app.js\<close>) and for the 400
  response to a request line whose version is rejected (\<^verbatim>\<open>GET /app.js HTTP/1.x\<close>):
  such a response consists of its body only and carries no header at all.
\<close>

theorem http09_response_has_no_headers:
  "respond bad_version_handler 400 ''Bad request version'' error_headers = Inr bad_version_handler
   \<and> wfile bad_version_handler = []
   \<and> end_headers bad_version_handler = Inr bad_version_handler"
proof -
  have v: "request_version bad_version_handler = ''HTTP/0.9''"
    by (simp add: bad_version_handler_def)
  have a: "send_response_only bad_version_handler 400 ''Bad request version'' =
      bad_version_handler"
    using v by (simp add: send_response_only_def)
  have b: "send_headers bad_version_handler error_headers = bad_version_handler"
    by (simp add: send_headers_def error_headers_def send_header_def str_lower_def
        lower_char_def bad_version_handler_def)
  show ?thesis
    using end_headers_http09 [OF v]
    by (simp add: respond_def a b) (simp add: bad_version_handler_def)
qed

text \<open>
  C2, amended. Whenever the handler finishes the headers of a response to a request
  whose recorded version is not \<^verbatim>\<open>'HTTP/0.9'\<close>, the block written to the client ends
  with the line \<^verbatim>\<open>Cache-Control: public, max-age=0\<close> and the empty line. For a response
  built in the inherited way (status line, the handler's own headers, \<^verbatim>\<open>end_headers\<close>)
  the block is the status line, each of the handler's headers in order, then the
  \<^verbatim>\<open>Cache-Control\<close> line: it is sent in addition to them, for every status code and
  every content type, and the call never fails.
\<close>

theorem cache_control_in_every_header_block:
  assumes "request_version h \<noteq> ''HTTP/0.9''"
  shows "(\<exists>h'. end_headers h = Inr h' \<and>
            wfile h' = wfile h @
              [concat ((case headers_buffer h of None \<Rightarrow> [] | Some b \<Rightarrow> b) @
                 [header_line ''Cache-Control'' ''public, max-age=0'', crlf])])
         \<and> (\<exists>h'. respond h code message hs = Inr h' \<and>
            wfile h' = wfile h @
              [concat ((case headers_buffer h of None \<Rightarrow> [] | Some b \<Rightarrow> b) @
                 [protocol_version h @ '' '' @ str_int code @ '' '' @ message @ crlf] @
                 map (\<lambda>kv. header_line (fst kv) (snd kv)) hs @
                 [header_line ''Cache-Control'' ''public, max-age=0'', crlf])])"
proof
  show "\<exists>h'. end_headers h = Inr h' \<and>
            wfile h' = wfile h @
              [concat ((case headers_buffer h of None \<Rightarrow> [] | Some b \<Rightarrow> b) @
                 [header_line ''Cache-Control'' ''public, max-age=0'', crlf])]"
    using assms by (simp add: end_headers_writes)
next
  let ?h1 = "send_response_only h code message"
  let ?line = "protocol_version h @ '' '' @ str_int code @ '' '' @ message @ crlf"
  let ?prior = "case headers_buffer h of None \<Rightarrow> [] | Some b \<Rightarrow> b"
  have h1: "?h1 = buffer_append h ?line"
    using assms by (simp add: send_response_only_def)
  have v1: "request_version ?h1 \<noteq> ''HTTP/0.9''"
    using assms by (simp add: h1 buffer_append_fields)
  have b1: "headers_buffer ?h1 = Some (?prior @ [?line])"
    by (simp add: h1 buffer_append_def)
  let ?h2 = "send_headers ?h1 hs"
  have v2: "request_version ?h2 \<noteq> ''HTTP/0.9''"
    using v1 by (simp add: send_headers_fields)
  have b2: "headers_buffer ?h2 =
      Some ((?prior @ [?line]) @ map (\<lambda>kv. header_line (fst kv) (snd kv)) hs)"
    using v1 b1 by (rule send_headers_buffer)
  have w2: "wfile ?h2 = wfile h"
    by (simp add: send_headers_fields h1 buffer_append_fields)
  have "respond h code message hs = end_headers ?h2"
    by (simp add: respond_def)
  then show "\<exists>h'. respond h code message hs = Inr h' \<and>
            wfile h' = wfile h @
              [concat (?prior @ [?line] @
                 map (\<lambda>kv. header_line (fst kv) (snd kv)) hs @
                 [header_line ''Cache-Control'' ''public, max-age=0'', crlf])]"
    using end_headers_writes [OF v2] by (simp add: b2 w2)
qed

theorem cache_control_in_every_header_block_witness:
  "request_version http11_handler \<noteq> ''HTTP/0.9''
   \<and> (\<exists>h'. respond http11_handler 200 ''OK'' (file_headers ''application/javascript'') = Inr h'
        \<and> wfile h' =
            [concat
              [''HTTP/1.0 200 OK'' @ crlf,
               ''Server: SimpleHTTP/0.6 Python/3.11.10'' @ crlf,
               ''Date: Wed, 04 Nov 2026 10:00:00 GMT'' @ crlf,
               ''Content-type: application/javascript'' @ crlf,
               ''Content-Length: 1024'' @ crlf,
               ''Last-Modified: Tue, 03 Nov 2026 09:00:00 GMT'' @ crlf,
               ''Cache-Control: public, max-age=0'' @ crlf,
               crlf]])"
proof -
  have a: "request_version http11_handler \<noteq> ''HTTP/0.9''"
    by (simp add: http11_handler_def)
  have c: "str_int 200 = ''200''"
    by (simp add: str_int_def str_nat.simps digit_char_def)
  have f: "headers_buffer http11_handler = None \<and> wfile http11_handler = []
      \<and> protocol_version http11_handler = ''HTTP/1.0''"
    by (simp add: http11_handler_def)
  from cache_control_in_every_header_block
    [OF a, of 200 "''OK''" "file_headers ''application/javascript''"]
  have "\<exists>h'. respond http11_handler 200 ''OK'' (file_headers ''application/javascript'') = Inr h'
        \<and> wfile h' = wfile http11_handler @
              [concat ((case headers_buffer http11_handler of None \<Rightarrow> [] | Some b \<Rightarrow> b) @
                 [protocol_version http11_handler @ '' '' @ str_int 200 @ '' '' @ ''OK'' @ crlf] @
                 map (\<lambda>kv. header_line (fst kv) (snd kv)) (file_headers ''application/javascript'') @
                 [header_line ''Cache-Control'' ''public, max-age=0'', crlf])]"
    by blast
  then show ?thesis
    using a by (simp add: f c file_headers_def header_line_def)
qed




text \<open>
  C4. When \<^verbatim>\<open>webbrowser.open\<close> raises an exception (any instance of \<^verbatim>\<open>Exception\<close>,
  which is what line 66 catches), the two warning lines are printed, the second one
  with the URL of the server, and \<^verbatim>\<open>serve_forever\<close> is called next. From there on the
  run is the one of a start where the browser opened: same calls, same outcome.
\<close>

theorem browser_failure_does_not_stop_serving:
  assumes "chdir_result e (script_dir e) = None"
    and "bind_result e HOST PORT = None"
    and "browser_result e url = Inl x"
    and "is_Exception x"
  shows "trace (main e) =
           Chdir (script_dir e) # banner @ Bind HOST PORT # announce @
           OpenBrowser url # browser_warning @ ServeForever # after_serve e
         \<and> browser_warning =
             [Print ''Failed to open browser automatically.'',
              Print ''Please open your browser and navigate to: http://127.0.0.1:8765'']
         \<and> trace (main (e\<lparr>browser_result := \<lambda>u. Inr True\<rparr>)) =
             Chdir (script_dir e) # banner @ Bind HOST PORT # announce @
             OpenBrowser url # ServeForever # after_serve e
         \<and> outcome (main e) = outcome (main (e\<lparr>browser_result := \<lambda>u. Inr True\<rparr>))"
proof -
  let ?e' = "e\<lparr>browser_result := \<lambda>u. Inr True\<rparr>"
  have ob: "open_browser e = (OpenBrowser url # browser_warning, None)"
    using assms(3,4) by (rule open_browser_handled)
  have ob': "open_browser ?e' = ([OpenBrowser url], None)"
    by (simp add: open_browser_def)
  have m: "main e = \<lparr>trace = Chdir (script_dir e) # banner @ Bind HOST PORT # announce @
                fst (open_browser e) @ ServeForever # after_serve e,
      cwd = resolve (initial_cwd e) (script_dir e),
      outcome = (case serve_result e of None \<Rightarrow> RunsForever
                 | Some x \<Rightarrow> snd (except_clauses x))\<rparr>"
    using assms(1,2) ob by (simp add: main_serving)
  have m': "main ?e' = \<lparr>trace = Chdir (script_dir ?e') # banner @ Bind HOST PORT # announce @
                fst (open_browser ?e') @ ServeForever # after_serve ?e',
      cwd = resolve (initial_cwd ?e') (script_dir ?e'),
      outcome = (case serve_result ?e' of None \<Rightarrow> RunsForever
                 | Some x \<Rightarrow> snd (except_clauses x))\<rparr>"
    using assms(1,2) ob' by (intro main_serving) (simp_all add: script_dir_def)
  show ?thesis
    by (simp add: m m' ob ob' script_dir_def after_serve_def browser_warning_def url_value)
qed

theorem browser_failure_does_not_stop_serving_witness:
  "chdir_result no_display_env (script_dir no_display_env) = None
   \<and> bind_result no_display_env HOST PORT = None
   \<and> browser_result no_display_env url = Inl (OtherException ''webbrowser.Error'')
   \<and> is_Exception (OtherException ''webbrowser.Error'')
   \<and> trace (main no_display_env) =
       Chdir \<lparr>anchor = ''/'', tail = [''opt'', ''haven'']\<rparr> # banner @
       Bind ''127.0.0.1'' 8765 # announce @
       [OpenBrowser ''http://127.0.0.1:8765'',
        Print ''Failed to open browser automatically.'',
        Print ''Please open your browser and navigate to: http://127.0.0.1:8765'',
        ServeForever, ServerClose] @ shutdown_message
   \<and> outcome (main no_display_env) = Exit 0"
proof -
  have a: "chdir_result no_display_env (script_dir no_display_env) = None"
    by (simp add: no_display_env_def quiet_env_def)
  have b: "bind_result no_display_env HOST PORT = None"
    by (simp add: no_display_env_def quiet_env_def)
  have c: "browser_result no_display_env url = Inl (OtherException ''webbrowser.Error'')"
    by (simp add: no_display_env_def quiet_env_def)
  have d: "is_Exception (OtherException ''webbrowser.Error'')"
    by simp
  have s: "script_dir no_display_env = \<lparr>anchor = ''/'', tail = [''opt'', ''haven'']\<rparr>"
    by (simp add: script_dir_def parent_def no_display_env_def quiet_env_def)
  have t: "after_serve no_display_env = ServerClose # shutdown_message"
    by (simp add: after_serve_def no_display_env_def quiet_env_def)
  have q: "main (no_display_env\<lparr>browser_result := \<lambda>u. Inr True\<rparr>) = main quiet_env"
    by (simp add: no_display_env_def quiet_env_def)
  have o: "outcome (main quiet_env) = Exit 0"
    by (simp add: main_def try_body_def with_body_def open_browser_def quiet_env_def)
  show ?thesis
    using browser_failure_does_not_stop_serving [OF a b c d] a b c d
    by (simp add: s t q o HOST_def PORT_def url_value)
qed

text \<open>
  C5. When \<^verbatim>\<open>KeyboardInterrupt\<close> ends \<^verbatim>\<open>serve_forever\<close>, the loop is left, the
  \<^verbatim>\<open>with\<close> statement closes the server socket, the two lines of lines 82 and 83
  are printed (a blank line, the waving hand and \<^verbatim>\<open>Shutting down server...\<close>, then
  the check mark and \<^verbatim>\<open>Server stopped\<close>) and the process exits with status 0. Status 0
  is reached in no other way: a run ends with it exactly when the directory was changed
  and \<^verbatim>\<open>KeyboardInterrupt\<close> left the body of the \<^verbatim>\<open>try\<close> statement.
\<close>

theorem interrupt_shuts_down_cleanly:
  "(chdir_result e (script_dir e) = None \<and> bind_result e HOST PORT = None \<and>
    snd (open_browser e) = None \<and> serve_result e = Some KeyboardInterrupt \<longrightarrow>
      trace (main e) =
        Chdir (script_dir e) # banner @ Bind HOST PORT # announce @ fst (open_browser e) @
        [ServeForever, ServerClose,
         Print ([CHR 0x0A, CHR 0x0A, CHR 0xF0, CHR 0x9F, CHR 0x91, CHR 0x8B] @
                '' Shutting down server...''),
         Print ([CHR 0xE2, CHR 0x9C, CHR 0x93] @ '' Server stopped'')]
      \<and> outcome (main e) = Exit 0)
   \<and> (outcome (main e) = Exit 0 \<longleftrightarrow>
        chdir_result e (script_dir e) = None \<and> snd (try_body e) = Some KeyboardInterrupt)"
proof (intro conjI impI)
  assume a: "chdir_result e (script_dir e) = None \<and> bind_result e HOST PORT = None \<and>
    snd (open_browser e) = None \<and> serve_result e = Some KeyboardInterrupt"
  then show "trace (main e) =
        Chdir (script_dir e) # banner @ Bind HOST PORT # announce @ fst (open_browser e) @
        [ServeForever, ServerClose,
         Print ([CHR 0x0A, CHR 0x0A, CHR 0xF0, CHR 0x9F, CHR 0x91, CHR 0x8B] @
                '' Shutting down server...''),
         Print ([CHR 0xE2, CHR 0x9C, CHR 0x93] @ '' Server stopped'')]"
    by (simp add: main_serving after_serve_def shutdown_message_value)
  from a show "outcome (main e) = Exit 0"
    by (simp add: main_serving)
next
  show "outcome (main e) = Exit 0 \<longleftrightarrow>
        chdir_result e (script_dir e) = None \<and> snd (try_body e) = Some KeyboardInterrupt"
  proof (cases "chdir_result e (script_dir e)")
    case None
    show ?thesis
    proof (cases "snd (try_body e)")
      case n: None
      with None show ?thesis by (simp add: main_started)
    next
      case (Some x)
      with None show ?thesis by (cases x) (simp_all add: main_started)
    qed
  next
    case (Some x)
    then show ?thesis by (simp add: main_chdir_raises)
  qed
qed

theorem interrupt_shuts_down_cleanly_witness:
  "chdir_result quiet_env (script_dir quiet_env) = None \<and> bind_result quiet_env HOST PORT = None
   \<and> snd (open_browser quiet_env) = None \<and> serve_result quiet_env = Some KeyboardInterrupt
   \<and> trace (main quiet_env) =
        Chdir \<lparr>anchor = ''/'', tail = [''opt'', ''haven'']\<rparr> # banner @
        Bind ''127.0.0.1'' 8765 # announce @
        [OpenBrowser ''http://127.0.0.1:8765'', ServeForever, ServerClose,
         Print ([CHR 0x0A, CHR 0x0A, CHR 0xF0, CHR 0x9F, CHR 0x91, CHR 0x8B] @
                '' Shutting down server...''),
         Print ([CHR 0xE2, CHR 0x9C, CHR 0x93] @ '' Server stopped'')]
   \<and> outcome (main quiet_env) = Exit 0
   \<and> snd (try_body quiet_env) = Some KeyboardInterrupt"
proof -
  have a: "chdir_result quiet_env (script_dir quiet_env) = None \<and>
      bind_result quiet_env HOST PORT = None \<and>
      snd (open_browser quiet_env) = None \<and> serve_result quiet_env = Some KeyboardInterrupt"
    by (simp add: quiet_open_browser) (simp add: quiet_env_def)
  note th = interrupt_shuts_down_cleanly [of quiet_env]
  from th a have b: "trace (main quiet_env) =
        Chdir (script_dir quiet_env) # banner @ Bind HOST PORT # announce @
        fst (open_browser quiet_env) @
        [ServeForever, ServerClose,
         Print ([CHR 0x0A, CHR 0x0A, CHR 0xF0, CHR 0x9F, CHR 0x91, CHR 0x8B] @
                '' Shutting down server...''),
         Print ([CHR 0xE2, CHR 0x9C, CHR 0x93] @ '' Server stopped'')]
      \<and> outcome (main quiet_env) = Exit 0"
    by blast
  with th have c: "snd (try_body quiet_env) = Some KeyboardInterrupt"
    by blast
  show ?thesis
    using a b c
    by (simp add: quiet_script_dir quiet_open_browser HOST_def PORT_def url_value)
qed

text \<open>
  C6. A bind-time \<^verbatim>\<open>OSError\<close> whose \<^verbatim>\<open>errno\<close> the script does not take for "address in
  use" (line 74) is reported with its own text, \<^verbatim>\<open>Server error: \<close> followed by
  \<^verbatim>\<open>str(e)\<close>, and the process exits with status 1. The constructor was called once:
  nothing is retried, and nothing is served.
\<close>

theorem other_bind_error_is_reported:
  assumes "chdir_result e (script_dir e) = None"
    and "bind_result e HOST PORT = Some (OSError en msg)"
    and "\<not> errno_in_use en"
  shows "trace (main e) =
           Chdir (script_dir e) # banner @ [Bind HOST PORT, Print (''Server error: '' @ msg)]
         \<and> outcome (main e) = Exit 1
         \<and> bind_calls (trace (main e)) = [(HOST, PORT)]"
  using assms
  by (simp add: main_started try_body_bind_raises bind_calls_append calls_banner)

theorem other_bind_error_is_reported_witness:
  "chdir_result bind_denied_env (script_dir bind_denied_env) = None
   \<and> bind_result bind_denied_env HOST PORT =
       Some (OSError (Some 13) ''[Errno 13] Permission denied'')
   \<and> \<not> errno_in_use (Some 13)
   \<and> trace (main bind_denied_env) =
       Chdir \<lparr>anchor = ''/'', tail = [''opt'', ''haven'']\<rparr> # banner @
       [Bind ''127.0.0.1'' 8765, Print ''Server error: [Errno 13] Permission denied'']
   \<and> outcome (main bind_denied_env) = Exit 1"
proof -
  have a: "chdir_result bind_denied_env (script_dir bind_denied_env) = None"
    by (simp add: bind_denied_env_def quiet_env_def)
  have b: "bind_result bind_denied_env HOST PORT =
      Some (OSError (Some 13) ''[Errno 13] Permission denied'')"
    by (simp add: bind_denied_env_def quiet_env_def)
  have c: "\<not> errno_in_use (Some 13)"
    by (simp add: errno_in_use_def EADDRINUSE_MACOS_def EADDRINUSE_LINUX_def)
  have d: "script_dir bind_denied_env = \<lparr>anchor = ''/'', tail = [''opt'', ''haven'']\<rparr>"
    by (simp add: script_dir_def parent_def bind_denied_env_def quiet_env_def)
  show ?thesis
    using other_bind_error_is_reported [OF a b c] a b c
    by (simp add: d HOST_def PORT_def)
qed

text \<open>
  C7, as the claim states it, fails: \<^verbatim>\<open>os.chdir\<close> is called before the \<^verbatim>\<open>try\<close>
  statement (lines 46 and 47), so its exception leaves \<^verbatim>\<open>main\<close>; and inside the
  \<^verbatim>\<open>try\<close> statement only \<^verbatim>\<open>OSError\<close> and \<^verbatim>\<open>KeyboardInterrupt\<close> have a clause, so an
  exception of another class leaves \<^verbatim>\<open>main\<close> as well.
\<close>

theorem uncaught_exception_counterexample:
  "outcome (main missing_dir_env) =
     Uncaught (OSError (Some 2) ''[Errno 2] No such file or directory'')"
  by (simp add: main_def missing_dir_env_def quiet_env_def)

text \<open>
  C7, amended. An exception of \<^verbatim>\<open>os.chdir\<close> leaves the program uncaught: the call comes
  before the \<^verbatim>\<open>try\<close> statement. Of the exceptions that leave the body of the \<^verbatim>\<open>try\<close>
  statement, every \<^verbatim>\<open>OSError\<close> becomes a printed message (the two lines about the port
  when its \<^verbatim>\<open>errno\<close> is 48 or 98, \<^verbatim>\<open>Server error: \<close> with its text otherwise) and exit
  status 1, every \<^verbatim>\<open>KeyboardInterrupt\<close> becomes the two shutdown lines and exit status
  0, and an exception of any other class leaves the program uncaught. What leaves the
  body is: whatever the \<^verbatim>\<open>TCPServer\<close> constructor raises; from \<^verbatim>\<open>webbrowser.open\<close> only
  what is not an instance of \<^verbatim>\<open>Exception\<close>, because lines 64 to 68 handle every instance
  of \<^verbatim>\<open>Exception\<close>, an \<^verbatim>\<open>OSError\<close> included, on the spot and go on to serve; and
  whatever \<^verbatim>\<open>serve_forever\<close> raises.
\<close>

theorem top_level_handlers:
  "(chdir_result e (script_dir e) = Some x \<longrightarrow>
      main e = \<lparr>trace = [Chdir (script_dir e)], cwd = initial_cwd e, outcome = Uncaught x\<rparr>)
   \<and> (chdir_result e (script_dir e) = None \<and> snd (try_body e) = Some (OSError en msg) \<longrightarrow>
        outcome (main e) = Exit 1 \<and>
        trace (main e) =
          Chdir (script_dir e) # banner @ fst (try_body e) @
          (if en = Some 48 \<or> en = Some 98
           then [Print ([CHR 0x0A, CHR 0xE2, CHR 0x9D, CHR 0x8C] @
                        '' Port 8765 is already in use.''),
                 Print (''Please close the other application or use a different port.'' @
                        [CHR 0x0A])]
           else [Print (''Server error: '' @ msg)]))
   \<and> (chdir_result e (script_dir e) = None \<and> snd (try_body e) = Some KeyboardInterrupt \<longrightarrow>
        outcome (main e) = Exit 0 \<and>
        trace (main e) =
          Chdir (script_dir e) # banner @ fst (try_body e) @
          [Print ([CHR 0x0A, CHR 0x0A, CHR 0xF0, CHR 0x9F, CHR 0x91, CHR 0x8B] @
                  '' Shutting down server...''),
           Print ([CHR 0xE2, CHR 0x9C, CHR 0x93] @ '' Server stopped'')])
   \<and> (chdir_result e (script_dir e) = None \<and>
       snd (try_body e) = Some (OtherException name) \<longrightarrow>
        outcome (main e) = Uncaught (OtherException name) \<and>
        trace (main e) = Chdir (script_dir e) # banner @ fst (try_body e))
   \<and> snd (try_body e) =
       (case bind_result e HOST PORT of
          Some y \<Rightarrow> Some y
        | None \<Rightarrow>
            (case browser_result e url of
               Inl y \<Rightarrow> if is_Exception y then serve_result e else Some y
             | Inr opened \<Rightarrow> serve_result e))"
proof (intro conjI impI)
  assume "chdir_result e (script_dir e) = Some x"
  then show "main e =
      \<lparr>trace = [Chdir (script_dir e)], cwd = initial_cwd e, outcome = Uncaught x\<rparr>"
    by (rule main_chdir_raises)
next
  assume a: "chdir_result e (script_dir e) = None \<and> snd (try_body e) = Some (OSError en msg)"
  then show "outcome (main e) = Exit 1"
    by (simp add: main_started)
  from a show "trace (main e) =
          Chdir (script_dir e) # banner @ fst (try_body e) @
          (if en = Some 48 \<or> en = Some 98
           then [Print ([CHR 0x0A, CHR 0xE2, CHR 0x9D, CHR 0x8C] @
                        '' Port 8765 is already in use.''),
                 Print (''Please close the other application or use a different port.'' @
                        [CHR 0x0A])]
           else [Print (''Server error: '' @ msg)])"
    by (simp add: main_started port_in_use_message_text errno_in_use_def
        EADDRINUSE_MACOS_def EADDRINUSE_LINUX_def)
next
  assume a: "chdir_result e (script_dir e) = None \<and> snd (try_body e) = Some KeyboardInterrupt"
  then show "outcome (main e) = Exit 0"
    by (simp add: main_started)
  from a show "trace (main e) =
          Chdir (script_dir e) # banner @ fst (try_body e) @
          [Print ([CHR 0x0A, CHR 0x0A, CHR 0xF0, CHR 0x9F, CHR 0x91, CHR 0x8B] @
                  '' Shutting down server...''),
           Print ([CHR 0xE2, CHR 0x9C, CHR 0x93] @ '' Server stopped'')]"
    by (simp add: main_started shutdown_message_value)
next
  assume a: "chdir_result e (script_dir e) = None \<and>
       snd (try_body e) = Some (OtherException name)"
  then show "outcome (main e) = Uncaught (OtherException name)"
    by (simp add: main_started)
  from a show "trace (main e) = Chdir (script_dir e) # banner @ fst (try_body e)"
    by (simp add: main_started)
next
  show "snd (try_body e) =
       (case bind_result e HOST PORT of
          Some y \<Rightarrow> Some y
        | None \<Rightarrow>
            (case browser_result e url of
               Inl y \<Rightarrow> if is_Exception y then serve_result e else Some y
             | Inr opened \<Rightarrow> serve_result e))"
    by (rule try_body_raises)
qed

theorem top_level_handlers_witness:
  "chdir_result missing_dir_env (script_dir missing_dir_env) =
     Some (OSError (Some 2) ''[Errno 2] No such file or directory'')
   \<and> outcome (main missing_dir_env) =
       Uncaught (OSError (Some 2) ''[Errno 2] No such file or directory'')
   \<and> chdir_result bind_denied_env (script_dir bind_denied_env) = None
   \<and> snd (try_body bind_denied_env) = Some (OSError (Some 13) ''[Errno 13] Permission denied'')
   \<and> outcome (main bind_denied_env) = Exit 1
   \<and> trace (main bind_denied_env) =
       Chdir \<lparr>anchor = ''/'', tail = [''opt'', ''haven'']\<rparr> # banner @
       [Bind ''127.0.0.1'' 8765, Print ''Server error: [Errno 13] Permission denied'']
   \<and> chdir_result quiet_env (script_dir quiet_env) = None
   \<and> snd (try_body quiet_env) = Some KeyboardInterrupt
   \<and> outcome (main quiet_env) = Exit 0
   \<and> chdir_result serve_crash_env (script_dir serve_crash_env) = None
   \<and> snd (try_body serve_crash_env) = Some (OtherException ''ValueError'')
   \<and> outcome (main serve_crash_env) = Uncaught (OtherException ''ValueError'')"
proof -
  have a1: "chdir_result missing_dir_env (script_dir missing_dir_env) =
     Some (OSError (Some 2) ''[Errno 2] No such file or directory'')"
    by (simp add: missing_dir_env_def quiet_env_def)
  from top_level_handlers [of missing_dir_env
      "OSError (Some 2) ''[Errno 2] No such file or directory''"] a1
  have b1: "outcome (main missing_dir_env) =
       Uncaught (OSError (Some 2) ''[Errno 2] No such file or directory'')"
    by simp
  have a2: "chdir_result bind_denied_env (script_dir bind_denied_env) = None"
    by (simp add: bind_denied_env_def quiet_env_def)
  note t2 = bind_denied_try_body_raises
  have f2: "fst (try_body bind_denied_env) = [Bind ''127.0.0.1'' 8765]"
    by (simp add: try_body_def bind_denied_env_def quiet_env_def HOST_def PORT_def)
  have s2: "script_dir bind_denied_env = \<lparr>anchor = ''/'', tail = [''opt'', ''haven'']\<rparr>"
    by (simp add: script_dir_def parent_def bind_denied_env_def quiet_env_def)
  from top_level_handlers
    [of bind_denied_env _ "Some 13" "''[Errno 13] Permission denied''"] a2 t2
  have b2: "outcome (main bind_denied_env) = Exit 1 \<and>
        trace (main bind_denied_env) =
          Chdir (script_dir bind_denied_env) # banner @ fst (try_body bind_denied_env) @
          (if Some (13::int) = Some 48 \<or> Some (13::int) = Some 98
           then [Print ([CHR 0x0A, CHR 0xE2, CHR 0x9D, CHR 0x8C] @
                        '' Port 8765 is already in use.''),
                 Print (''Please close the other application or use a different port.'' @
                        [CHR 0x0A])]
           else [Print (''Server error: '' @ ''[Errno 13] Permission denied'')])"
    by blast
  then have c2: "outcome (main bind_denied_env) = Exit 1 \<and>
      trace (main bind_denied_env) =
       Chdir \<lparr>anchor = ''/'', tail = [''opt'', ''haven'']\<rparr> # banner @
       [Bind ''127.0.0.1'' 8765, Print ''Server error: [Errno 13] Permission denied'']"
    by (simp add: f2 s2)
  have a3: "chdir_result quiet_env (script_dir quiet_env) = None"
    by (simp add: quiet_env_def)
  from top_level_handlers [of quiet_env] a3 quiet_try_body_raises
  have b3: "outcome (main quiet_env) = Exit 0"
    by blast
  have a4: "chdir_result serve_crash_env (script_dir serve_crash_env) = None"
    by (simp add: serve_crash_env_def quiet_env_def)
  have t4: "snd (try_body serve_crash_env) = Some (OtherException ''ValueError'')"
    by (simp add: try_body_def with_body_def open_browser_def serve_crash_env_def quiet_env_def)
  from top_level_handlers [of serve_crash_env _ _ _ "''ValueError''"] a4 t4
  have b4: "outcome (main serve_crash_env) = Uncaught (OtherException ''ValueError'')"
    by blast
  show ?thesis
    using a1 b1 a2 t2 c2 a3 quiet_try_body_raises b3 a4 t4 b4 by simp
qed


text \<open>
  C8. The first thing a run does is \<^verbatim>\<open>os.chdir(Path(__file__).parent)\<close>, before the
  banner and before the \<^verbatim>\<open>TCPServer\<close> constructor is called, and it is the only change
  of directory. When the call succeeds the working directory is, for the rest of the
  run, the directory that contains the script (the parent of \<^verbatim>\<open>__file__\<close> resolved
  against the caller's directory; \<^verbatim>\<open>__file__\<close> names a file, so it has a last part).
  When the call raises, nothing else is done: no bind, no serving.
\<close>

theorem working_directory_is_script_directory:
  "(chdir_result e (script_dir e) = None \<longrightarrow>
      (\<exists>rest. trace (main e) = Chdir (parent (script_file e)) # banner @ Bind HOST PORT # rest)
      \<and> chdir_calls (trace (main e)) = [parent (script_file e)]
      \<and> cwd (main e) = resolve (initial_cwd e) (parent (script_file e))
      \<and> (tail (script_file e) \<noteq> [] \<longrightarrow>
           cwd (main e) = parent (resolve (initial_cwd e) (script_file e))))
   \<and> (chdir_result e (script_dir e) \<noteq> None \<longrightarrow>
        trace (main e) = [Chdir (parent (script_file e))])"
proof (intro conjI impI)
  assume a: "chdir_result e (script_dir e) = None"
  show "\<exists>rest. trace (main e) = Chdir (parent (script_file e)) # banner @ Bind HOST PORT # rest"
  proof (cases "bind_result e HOST PORT")
    case None
    with a show ?thesis by (simp add: main_started try_body_bound script_dir_def)
  next
    case (Some x)
    with a show ?thesis by (simp add: main_started try_body_bind_raises script_dir_def)
  qed
  from a show "chdir_calls (trace (main e)) = [parent (script_file e)]"
    by (simp add: calls_main_started script_dir_def)
  from a show c: "cwd (main e) = resolve (initial_cwd e) (parent (script_file e))"
    by (simp add: main_started script_dir_def)
  assume "tail (script_file e) \<noteq> []"
  with c show "cwd (main e) = parent (resolve (initial_cwd e) (script_file e))"
    by (simp add: parent_resolve)
next
  assume "chdir_result e (script_dir e) \<noteq> None"
  then show "trace (main e) = [Chdir (parent (script_file e))]"
    by (auto simp add: main_chdir_raises script_dir_def)
qed

theorem working_directory_is_script_directory_witness:
  "chdir_result other_args_env (script_dir other_args_env) = None
   \<and> tail (script_file other_args_env) \<noteq> []
   \<and> chdir_calls (trace (main other_args_env)) = [\<lparr>anchor = [], tail = [''haven'']\<rparr>]
   \<and> cwd (main other_args_env) = \<lparr>anchor = ''/'', tail = [''opt'', ''haven'']\<rparr>
   \<and> chdir_result missing_dir_env (script_dir missing_dir_env) \<noteq> None
   \<and> trace (main missing_dir_env) = [Chdir \<lparr>anchor = ''/'', tail = [''opt'', ''haven'']\<rparr>]"
proof -
  have a: "chdir_result other_args_env (script_dir other_args_env) = None"
    by (simp add: other_args_env_def quiet_env_def)
  have b: "tail (script_file other_args_env) \<noteq> []"
    by (simp add: other_args_env_def quiet_env_def)
  have c: "chdir_result missing_dir_env (script_dir missing_dir_env) \<noteq> None"
    by (simp add: missing_dir_env_def quiet_env_def)
  have p: "parent (script_file other_args_env) = \<lparr>anchor = [], tail = [''haven'']\<rparr>"
    by (simp add: parent_def other_args_env_def quiet_env_def)
  have q: "parent (resolve (initial_cwd other_args_env) (script_file other_args_env)) =
      \<lparr>anchor = ''/'', tail = [''opt'', ''haven'']\<rparr>"
    by (simp add: parent_def resolve_def other_args_env_def quiet_env_def)
  have r: "parent (script_file missing_dir_env) = \<lparr>anchor = ''/'', tail = [''opt'', ''haven'']\<rparr>"
    by (simp add: parent_def missing_dir_env_def quiet_env_def)
  have t: "resolve (initial_cwd other_args_env) \<lparr>anchor = [], tail = [''haven'']\<rparr> =
      \<lparr>anchor = ''/'', tail = [''opt'', ''haven'']\<rparr>"
    by (simp add: resolve_def other_args_env_def quiet_env_def)
  show ?thesis
    using working_directory_is_script_directory [of other_args_env]
      working_directory_is_script_directory [of missing_dir_env] a b c
    by (simp add: p q r t)
qed

text \<open>
  C9. Every call of the \<^verbatim>\<open>TCPServer\<close> constructor is for the address
  \<^verbatim>\<open>('127.0.0.1', 8765)\<close>. Any two runs that get as far as binding make the same single
  call, whatever their environments are, and a run does not change at all when the
  command line, the environment variables and the files are replaced by others.
\<close>

theorem bind_address_is_fixed:
  "set (bind_calls (trace (main e1))) \<subseteq> {(''127.0.0.1'', 8765)}
   \<and> (chdir_result e1 (script_dir e1) = None \<and> chdir_result e2 (script_dir e2) = None \<longrightarrow>
        bind_calls (trace (main e1)) = [(''127.0.0.1'', 8765)] \<and>
        bind_calls (trace (main e2)) = bind_calls (trace (main e1)))
   \<and> main (e1\<lparr>argv := a, environ := v, files := f\<rparr>) = main e1"
proof (intro conjI impI)
  show "set (bind_calls (trace (main e1))) \<subseteq> {(''127.0.0.1'', 8765)}"
  proof (cases "chdir_result e1 (script_dir e1)")
    case None
    then show ?thesis by (simp add: calls_main_started HOST_def PORT_def)
  next
    case (Some x)
    then show ?thesis by (simp add: main_chdir_raises)
  qed
next
  assume a: "chdir_result e1 (script_dir e1) = None \<and> chdir_result e2 (script_dir e2) = None"
  then show "bind_calls (trace (main e1)) = [(''127.0.0.1'', 8765)]"
    by (simp add: calls_main_started HOST_def PORT_def)
  from a show "bind_calls (trace (main e2)) = bind_calls (trace (main e1))"
    by (simp add: calls_main_started)
next
  show "main (e1\<lparr>argv := a, environ := v, files := f\<rparr>) = main e1"
    by (rule main_ignores_arguments)
qed

theorem bind_address_is_fixed_witness:
  "chdir_result quiet_env (script_dir quiet_env) = None
   \<and> chdir_result other_args_env (script_dir other_args_env) = None
   \<and> argv other_args_env \<noteq> argv quiet_env
   \<and> environ other_args_env \<noteq> environ quiet_env
   \<and> files other_args_env \<noteq> files quiet_env
   \<and> bind_calls (trace (main quiet_env)) = [(''127.0.0.1'', 8765)]
   \<and> bind_calls (trace (main other_args_env)) = [(''127.0.0.1'', 8765)]"
proof -
  have a: "chdir_result quiet_env (script_dir quiet_env) = None"
    by (simp add: quiet_env_def)
  have b: "chdir_result other_args_env (script_dir other_args_env) = None"
    by (simp add: other_args_env_def quiet_env_def)
  have c: "argv other_args_env \<noteq> argv quiet_env \<and> environ other_args_env \<noteq> environ quiet_env
      \<and> files other_args_env \<noteq> files quiet_env"
    by (simp add: other_args_env_def quiet_env_def)
  show ?thesis
    using bind_address_is_fixed [of quiet_env other_args_env] a b c
    by simp
qed

text \<open>
  C10. When \<^verbatim>\<open>webbrowser.open\<close> returns \<^verbatim>\<open>False\<close> instead of raising, the returned
  value is dropped: \<^verbatim>\<open>serve_forever\<close> is called right after the call, neither warning
  line appears anywhere in the run, and the whole run is the one of a start where the
  browser opened. A warning line in the output of a run means that the call raised an
  instance of \<^verbatim>\<open>Exception\<close>.
\<close>

theorem no_warning_unless_open_raises:
  "(chdir_result e (script_dir e) = None \<and> bind_result e HOST PORT = None \<and>
    browser_result e url = Inr False \<longrightarrow>
      trace (main e) =
        Chdir (script_dir e) # banner @ Bind HOST PORT # announce @
        OpenBrowser url # ServeForever # after_serve e
      \<and> main e = main (e\<lparr>browser_result := \<lambda>u. Inr True\<rparr>)
      \<and> set browser_warning \<inter> set (trace (main e)) = {})
   \<and> (set browser_warning \<inter> set (trace (main e)) \<noteq> {} \<longrightarrow>
        (\<exists>x. browser_result e url = Inl x \<and> is_Exception x))"
proof (intro conjI impI)
  assume a: "chdir_result e (script_dir e) = None \<and> bind_result e HOST PORT = None \<and>
    browser_result e url = Inr False"
  then have ob: "open_browser e = ([OpenBrowser url], None)"
    by (simp add: open_browser_def)
  with a show "trace (main e) =
        Chdir (script_dir e) # banner @ Bind HOST PORT # announce @
        OpenBrowser url # ServeForever # after_serve e"
    by (simp add: main_serving)
  have ob': "open_browser (e\<lparr>browser_result := \<lambda>u. Inr True\<rparr>) = open_browser e"
    by (simp add: ob) (simp add: open_browser_def)
  have wb: "with_body (e\<lparr>browser_result := \<lambda>u. Inr True\<rparr>) = with_body e"
    by (simp add: with_body_def ob' split: prod.splits option.splits)
  have tb: "try_body (e\<lparr>browser_result := \<lambda>u. Inr True\<rparr>) = try_body e"
    by (simp add: try_body_def wb cong: option.case_cong)
  show "main e = main (e\<lparr>browser_result := \<lambda>u. Inr True\<rparr>)"
    by (simp add: main_def tb script_dir_def cong: option.case_cong)
  show "set browser_warning \<inter> set (trace (main e)) = {}"
  proof (rule ccontr)
    assume "set browser_warning \<inter> set (trace (main e)) \<noteq> {}"
    then obtain ev where "ev \<in> set browser_warning" "ev \<in> set (trace (main e))"
      by blast
    then have "\<exists>x. browser_result e url = Inl x \<and> is_Exception x"
      by (rule warning_needs_exception)
    with a show False by simp
  qed
next
  assume "set browser_warning \<inter> set (trace (main e)) \<noteq> {}"
  then obtain ev where "ev \<in> set browser_warning" "ev \<in> set (trace (main e))"
    by blast
  then show "\<exists>x. browser_result e url = Inl x \<and> is_Exception x"
    by (rule warning_needs_exception)
qed

theorem no_warning_unless_open_raises_witness:
  "chdir_result no_browser_env (script_dir no_browser_env) = None
   \<and> bind_result no_browser_env HOST PORT = None
   \<and> browser_result no_browser_env url = Inr False
   \<and> trace (main no_browser_env) =
        Chdir \<lparr>anchor = ''/'', tail = [''opt'', ''haven'']\<rparr> # banner @
        Bind ''127.0.0.1'' 8765 # announce @
        [OpenBrowser ''http://127.0.0.1:8765'', ServeForever, ServerClose] @ shutdown_message
   \<and> Print ''Failed to open browser automatically.'' \<notin> set (trace (main no_browser_env))
   \<and> Print ''Please open your browser and navigate to: http://127.0.0.1:8765''
        \<notin> set (trace (main no_browser_env))"
proof -
  have a: "chdir_result no_browser_env (script_dir no_browser_env) = None \<and>
      bind_result no_browser_env HOST PORT = None \<and>
      browser_result no_browser_env url = Inr False"
    by (simp add: no_browser_env_def quiet_env_def)
  have s: "script_dir no_browser_env = \<lparr>anchor = ''/'', tail = [''opt'', ''haven'']\<rparr>"
    by (simp add: script_dir_def parent_def no_browser_env_def quiet_env_def)
  have t: "after_serve no_browser_env = ServerClose # shutdown_message"
    by (simp add: after_serve_def no_browser_env_def quiet_env_def)
  have w: "set browser_warning =
      {Print ''Failed to open browser automatically.'',
       Print ''Please open your browser and navigate to: http://127.0.0.1:8765''}"
    by (simp add: browser_warning_def url_value)
  from no_warning_unless_open_raises [of no_browser_env] a
  have b: "trace (main no_browser_env) =
        Chdir (script_dir no_browser_env) # banner @ Bind HOST PORT # announce @
        OpenBrowser url # ServeForever # after_serve no_browser_env
      \<and> set browser_warning \<inter> set (trace (main no_browser_env)) = {}"
    by blast
  then have c: "Print ''Failed to open browser automatically.'' \<notin> set (trace (main no_browser_env))
      \<and> Print ''Please open your browser and navigate to: http://127.0.0.1:8765''
        \<notin> set (trace (main no_browser_env))"
    unfolding w by blast
  show ?thesis
    using a b c by (simp add: s t HOST_def PORT_def url_value)
qed

end
